theory Spec2Isabelle
  imports Main
begin

section \<open>The workflow page of the AIDEPS front end\<close>

text \<open>
  This theory embeds the state machine of \<^verbatim>\<open>frontend/src/pages/WorkflowPage.tsx\<close>:
  the React state of the component (\<^verbatim>\<open>currentStage\<close>, \<^verbatim>\<open>completedStages\<close>,
  \<^verbatim>\<open>stageData\<close>, \<^verbatim>\<open>loading\<close>, \<^verbatim>\<open>isProcessing\<close>, \<^verbatim>\<open>validationErrors\<close>) and
  its handlers. Each handler is a function from the state before the call to the state
  after it, together with the toasts and navigations it emits. A handler runs to its
  end before the next one starts: while \<^verbatim>\<open>handleNext\<close> awaits the save, the
  processing backdrop covers the page and the buttons are disabled. The effect that
  rewrites the URL after a change of \<^verbatim>\<open>currentStage\<close> reads the state and does not
  change it; it is left out.
\<close>

subsection \<open>JavaScript numbers\<close>

text \<open>
  \<^verbatim>\<open>currentStage\<close> and the members of \<^verbatim>\<open>completedStages\<close> have the TypeScript type
  \<^verbatim>\<open>number\<close>, a double. Every number that the page computes is an integer, an
  infinity or \<^verbatim>\<open>NaN\<close> (the last two from \<^verbatim>\<open>parseInt\<close> on a route parameter that is
  too long or has no digits). A finite number is modelled by its integer value; the
  sign of zero is not kept, since nothing in the page tells \<^verbatim>\<open>-0\<close> from \<^verbatim>\<open>0\<close>.
\<close>

datatype jsnum = NaN | Num int | PosInfinity | NegInfinity

fun js_lt :: "jsnum \<Rightarrow> jsnum \<Rightarrow> bool" where
  "js_lt (Num a) (Num b) = (a < b)"
| "js_lt (Num a) PosInfinity = True"
| "js_lt NegInfinity (Num b) = True"
| "js_lt NegInfinity PosInfinity = True"
| "js_lt _ _ = False"

fun js_gt :: "jsnum \<Rightarrow> jsnum \<Rightarrow> bool" where
  "js_gt (Num a) (Num b) = (a > b)"
| "js_gt PosInfinity (Num b) = True"
| "js_gt (Num a) NegInfinity = True"
| "js_gt PosInfinity NegInfinity = True"
| "js_gt _ _ = False"

fun js_le :: "jsnum \<Rightarrow> jsnum \<Rightarrow> bool" where
  "js_le (Num a) (Num b) = (a \<le> b)"
| "js_le (Num a) PosInfinity = True"
| "js_le (Num a) NegInfinity = False"
| "js_le (Num a) NaN = False"
| "js_le NegInfinity b = (b \<noteq> NaN)"
| "js_le PosInfinity b = (b = PosInfinity)"
| "js_le NaN b = False"

text \<open>\<^verbatim>\<open>===\<close> on numbers: \<^verbatim>\<open>NaN\<close> is not equal to anything, itself included.\<close>

fun js_strict_eq :: "jsnum \<Rightarrow> jsnum \<Rightarrow> bool" where
  "js_strict_eq (Num a) b = (b = Num a)"
| "js_strict_eq PosInfinity b = (b = PosInfinity)"
| "js_strict_eq NegInfinity b = (b = NegInfinity)"
| "js_strict_eq NaN b = False"

text \<open>
  The double nearest to an integer. Below \<open>2^53\<close> every integer is a double. From
  there on a double has 53 significant bits: the integer is rounded to the nearest
  such value, a tie going to the one whose last significant bit is 0, and a result of
  \<open>2^1024\<close> or more is an infinity.
\<close>

function bit_length :: "int \<Rightarrow> nat" where
  "bit_length n = (if n \<le> 0 then 0 else Suc (bit_length (n div 2)))"
  by pat_completeness auto
termination
  by (relation "measure nat") auto

declare bit_length.simps [simp del]

definition round_magnitude :: "int \<Rightarrow> int" where
  "round_magnitude m =
     (if m < 2 ^ 53 then m
      else let e = bit_length m - 53;
               q = m div 2 ^ e;
               r = m mod 2 ^ e;
               half = 2 ^ (e - 1)
           in (if half < r \<or> (r = half \<and> odd q) then q + 1 else q) * 2 ^ e)"

definition to_double :: "int \<Rightarrow> jsnum" where
  "to_double x =
     (let m = round_magnitude \<bar>x\<bar>
      in if 2 ^ 1024 \<le> m then (if x < 0 then NegInfinity else PosInfinity)
         else Num (if x < 0 then - m else m))"

text \<open>
  \<^verbatim>\<open>n + k\<close> and \<^verbatim>\<open>n - k\<close> for an integer \<open>k\<close>: the exact result, rounded to a double.
\<close>

fun js_plus :: "jsnum \<Rightarrow> int \<Rightarrow> jsnum" where
  "js_plus (Num a) k = to_double (a + k)"
| "js_plus n k = n"

fun js_minus :: "jsnum \<Rightarrow> int \<Rightarrow> jsnum" where
  "js_minus (Num a) k = to_double (a - k)"
| "js_minus n k = n"

text \<open>
  \<^verbatim>\<open>Array.prototype.includes\<close> compares with SameValueZero, under which \<^verbatim>\<open>NaN\<close>
  is found in an array that holds \<^verbatim>\<open>NaN\<close>: it is membership in the list.
\<close>

definition js_includes :: "jsnum list \<Rightarrow> jsnum \<Rightarrow> bool" where
  "js_includes xs v = (v \<in> set xs)"

text \<open>
  The text of a number, as a template string or a property key shows it. Below \<open>2^53\<close>
  it is the decimal numeral. From there on it has the fewest significant digits that
  still read back as the same double (of two such digit strings the one nearer to the
  number, of two equally near the even one), followed by zeros up to 21 digits in all,
  and in exponent form beyond.
\<close>

function digits :: "int \<Rightarrow> string" where
  "digits n = (if n < 10 then [char_of (48 + n)]
               else digits (n div 10) @ [char_of (48 + n mod 10)])"
  by pat_completeness auto
termination
  by (relation "measure nat") auto

declare digits.simps [simp del]

definition candidates :: "int \<Rightarrow> nat \<Rightarrow> int list" where
  "candidates x k =
     (let p = 10 ^ (length (digits x) - k);
          lo = x div p;
          below = x - lo * p;
          above = (lo + 1) * p - x;
          nearest_first =
            (if below < above \<or> (below = above \<and> even lo) then [lo, lo + 1] else [lo + 1, lo])
      in filter (\<lambda>s. to_double (s * p) = Num x) nearest_first)"

definition shortest :: "int \<Rightarrow> int \<times> nat" where
  "shortest x =
     (case List.find (\<lambda>k. candidates x k \<noteq> []) [1 ..< Suc (length (digits x))] of
        None \<Rightarrow> (x, length (digits x))
      | Some k \<Rightarrow>
          (case candidates x k of
             [] \<Rightarrow> (x, length (digits x))
           | s # _ \<Rightarrow> if s = 10 ^ k then (1, Suc (length (digits x)))
                      else (s, length (digits x))))"

definition magnitudeToString :: "int \<Rightarrow> string" where
  "magnitudeToString x =
     (if x < 2 ^ 53 then digits x
      else let (s, n) = shortest x;
               ds = digits s
           in if n \<le> 21 then ds @ replicate (n - length ds) (CHR ''0'')
              else (case ds of
                      [] \<Rightarrow> []
                    | [d] \<Rightarrow> [d]
                    | d # rest \<Rightarrow> d # CHR ''.'' # rest) @ ''e+'' @ digits (int n - 1))"

fun numberToString :: "jsnum \<Rightarrow> string" where
  "numberToString NaN = ''NaN''"
| "numberToString PosInfinity = ''Infinity''"
| "numberToString NegInfinity = ''-Infinity''"
| "numberToString (Num a) =
     (if a < 0 then CHR ''-'' # magnitudeToString (- a) else magnitudeToString a)"

text \<open>
  Stage payloads have the type \<^verbatim>\<open>any\<close>. The values that matter to the page are the
  falsy ones, strings, numbers and objects with named properties.
\<close>

datatype jsval =
    JUndefined
  | JNull
  | JBool bool
  | JNumber jsnum
  | JString string
  | JObject "(string \<times> jsval) list"

fun truthy :: "jsval \<Rightarrow> bool" where
  "truthy JUndefined = False"
| "truthy JNull = False"
| "truthy (JBool b) = b"
| "truthy (JNumber NaN) = False"
| "truthy (JNumber (Num a)) = (a \<noteq> 0)"
| "truthy (JNumber PosInfinity) = True"
| "truthy (JNumber NegInfinity) = True"
| "truthy (JString s) = (s \<noteq> [])"
| "truthy (JObject ps) = True"

text \<open>
  \<^verbatim>\<open>data?.name\<close>: \<^verbatim>\<open>undefined\<close> when \<^verbatim>\<open>data\<close> is \<^verbatim>\<open>undefined\<close> or \<^verbatim>\<open>null\<close>, and
  when the value has no such property.
\<close>

fun optional_prop :: "jsval \<Rightarrow> string \<Rightarrow> jsval" where
  "optional_prop (JObject ps) name = (case map_of ps name of Some v \<Rightarrow> v | None \<Rightarrow> JUndefined)"
| "optional_prop _ name = JUndefined"

fun js_ToString :: "jsval \<Rightarrow> string" where
  "js_ToString JUndefined = ''undefined''"
| "js_ToString JNull = ''null''"
| "js_ToString (JBool b) = (if b then ''true'' else ''false'')"
| "js_ToString (JNumber n) = numberToString n"
| "js_ToString (JString s) = s"
| "js_ToString (JObject ps) = ''[object Object]''"

subsection \<open>parseInt\<close>

text \<open>
  \<^verbatim>\<open>parseInt(s)\<close> without a radix: leading white space is dropped, then an optional
  sign, then \<^verbatim>\<open>0x\<close> or \<^verbatim>\<open>0X\<close> selects radix 16; the longest run of digits of the radix
  is read and the rest of the string is ignored; with no digit the result is \<^verbatim>\<open>NaN\<close>,
  otherwise the double nearest to the digits' value.

  A string is the sequence of the bytes of its UTF-8 encoding. The white space of
  JavaScript is TAB, LF, VT, FF, CR, the space, U+00A0, U+1680, U+2000 to U+200A,
  U+2028, U+2029, U+202F, U+205F, U+3000 and U+FEFF; \<open>whiteSpaceLength\<close> is the
  number of bytes of the white space character at the head of a string, 0 when there is
  none. The byte A0 standing alone, which is U+00A0 in Latin-1, is skipped as well.
\<close>

definition whiteSpaceLength :: "string \<Rightarrow> nat" where
  "whiteSpaceLength s =
     (let b = map (of_char :: char \<Rightarrow> nat) (take 3 s) in
      case b of
        [] \<Rightarrow> 0
      | b0 # bs \<Rightarrow>
          if b0 \<in> set [0x09, 0x0A, 0x0B, 0x0C, 0x0D, 0x20, 0xA0] then 1
          else if b0 = 0xC2 \<and> take 1 bs = [0xA0] then 2
          else if b0 = 0xE1 \<and> bs = [0x9A, 0x80] then 3
          else if b0 = 0xE2 \<and> take 1 bs = [0x80] \<and> length bs = 2
                  \<and> (last bs \<in> set [0x80, 0x81, 0x82, 0x83, 0x84, 0x85, 0x86, 0x87, 0x88,
                                      0x89, 0x8A, 0xA8, 0xA9, 0xAF]) then 3
          else if b0 = 0xE2 \<and> bs = [0x81, 0x9F] then 3
          else if b0 = 0xE3 \<and> bs = [0x80, 0x80] then 3
          else if b0 = 0xEF \<and> bs = [0xBB, 0xBF] then 3
          else 0)"

fun dropWhiteSpace :: "nat \<Rightarrow> string \<Rightarrow> string" where
  "dropWhiteSpace 0 s = s"
| "dropWhiteSpace (Suc fuel) s =
     (if whiteSpaceLength s = 0 then s else dropWhiteSpace fuel (drop (whiteSpaceLength s) s))"

definition digitValue :: "char \<Rightarrow> nat option" where
  "digitValue c =
     (let n = (of_char c :: nat) in
      if 48 \<le> n \<and> n \<le> 57 then Some (n - 48)
      else if 97 \<le> n \<and> n \<le> 122 then Some (n - 87)
      else if 65 \<le> n \<and> n \<le> 90 then Some (n - 55)
      else None)"

definition isRadixDigit :: "nat \<Rightarrow> char \<Rightarrow> bool" where
  "isRadixDigit r c = (case digitValue c of Some d \<Rightarrow> d < r | None \<Rightarrow> False)"

definition radixValue :: "nat \<Rightarrow> string \<Rightarrow> int" where
  "radixValue r z =
     foldl (\<lambda>acc c. acc * int r + (case digitValue c of Some d \<Rightarrow> int d | None \<Rightarrow> 0)) 0 z"

definition parseInt :: "string \<Rightarrow> jsnum" where
  "parseInt inputString =
     (let s0 = dropWhiteSpace (length inputString) inputString;
          negative = (case s0 of c # _ \<Rightarrow> c = CHR ''-'' | [] \<Rightarrow> False);
          s1 = (case s0 of c # rest \<Rightarrow> if c = CHR ''+'' \<or> c = CHR ''-'' then rest else s0 | [] \<Rightarrow> s0);
          hex = (take 2 s1 = ''0x'' \<or> take 2 s1 = ''0X'');
          r = (if hex then 16 else 10);
          s2 = (if hex then drop 2 s1 else s1);
          z = takeWhile (isRadixDigit r) s2
      in if z = [] then NaN
         else if negative then to_double (- radixValue r z)
         else to_double (radixValue r z))"

subsection \<open>The stage table and the component state\<close>

definition stages :: "(int \<times> string) list" where
  "stages =
    [(1, ''Raw Data Upload''),
     (2, ''Data Cleansing''),
     (3, ''Analysis & Discovery''),
     (4, ''Statistics & Weights''),
     (5, ''Propose Reports''),
     (6, ''User Confirmation''),
     (7, ''Final Report Generation'')]"

definition stages_length :: jsnum where
  "stages_length = Num (int (length stages))"

record wstate =
  currentStage :: jsnum
  completedStages :: "jsnum list"
  stageData :: "string \<rightharpoonup> jsval"
  loading :: bool
  isProcessing :: bool
  validationErrors :: "string list"

text \<open>What a handler shows or requests besides changing the state.\<close>

datatype effect =
    ToastError string
  | ToastSuccess string
  | Navigate string

text \<open>
  The initial state of the component. \<^verbatim>\<open>stage\<close> is the route parameter, absent on the
  routes \<^verbatim>\<open>workflow/new\<close> and \<^verbatim>\<open>workflow/:documentId\<close>:
  \<^verbatim>\<open>useState(parseInt(stage || '1'))\<close>.
\<close>

definition WorkflowPage_init :: "string option \<Rightarrow> wstate" where
  "WorkflowPage_init stage =
     \<lparr> currentStage = parseInt (case stage of None \<Rightarrow> ''1'' | Some st \<Rightarrow> if st = [] then ''1'' else st),
       completedStages = [],
       stageData = Map.empty,
       loading = False,
       isProcessing = False,
       validationErrors = [] \<rparr>"

text \<open>
  \<^verbatim>\<open>loadWorkflowData\<close>, run by the mount effect when \<^verbatim>\<open>documentId\<close> is set: the
  simulated call cannot fail, and only the document \<^verbatim>\<open>demo\<close> has a resume point.
\<close>

definition loadWorkflowData :: "string \<Rightarrow> wstate \<Rightarrow> wstate" where
  "loadWorkflowData documentId s =
     (if documentId = ''demo''
      then s\<lparr> completedStages := [Num 1, Num 2], currentStage := Num 3, loading := False \<rparr>
      else s\<lparr> loading := False \<rparr>)"

definition mountEffect :: "string option \<Rightarrow> wstate \<Rightarrow> wstate" where
  "mountEffect documentId s =
     (case documentId of
        None \<Rightarrow> s
      | Some d \<Rightarrow> if d = [] then s else loadWorkflowData d s)"

subsection \<open>Validation\<close>

text \<open>
  \<^verbatim>\<open>validateStage\<close> reads the properties \<^verbatim>\<open>fileUploaded\<close>, \<^verbatim>\<open>cleaningComplete\<close> and
  \<^verbatim>\<open>userConfirmed\<close> of \<^verbatim>\<open>stageData\<close>; a missing property is \<^verbatim>\<open>undefined\<close>. It stores
  the messages in \<^verbatim>\<open>validationErrors\<close> and returns whether there is none.
\<close>

definition stageData_prop :: "wstate \<Rightarrow> string \<Rightarrow> jsval" where
  "stageData_prop s name = (case stageData s name of Some v \<Rightarrow> v | None \<Rightarrow> JUndefined)"

definition stageErrors :: "wstate \<Rightarrow> string list" where
  "stageErrors s =
     (if js_strict_eq (currentStage s) (Num 1) then
        (if \<not> truthy (stageData_prop s ''fileUploaded'')
         then [''Please upload a file before proceeding''] else [])
      else if js_strict_eq (currentStage s) (Num 2) then
        (if \<not> truthy (stageData_prop s ''cleaningComplete'')
         then [''Please complete data cleaning before proceeding''] else [])
      else if js_strict_eq (currentStage s) (Num 6) then
        (if \<not> truthy (stageData_prop s ''userConfirmed'')
         then [''Please confirm your selections before proceeding''] else [])
      else [])"

definition validateStage :: "wstate \<Rightarrow> bool \<times> wstate" where
  "validateStage s = (stageErrors s = [], s\<lparr> validationErrors := stageErrors s \<rparr>)"

subsection \<open>The handlers\<close>

text \<open>
  \<^verbatim>\<open>handleNext\<close> awaits \<^verbatim>\<open>saveStageData\<close> inside \<^verbatim>\<open>try\<close>. The outcome of the awaited
  promise is an input of the model: it resolves, it rejects (the \<^verbatim>\<open>catch\<close> branch), or
  it has not settled, in which case nothing after the \<^verbatim>\<open>await\<close> has run. The call of
  \<^verbatim>\<open>validateStage\<close> at the head of the handler is commented out in the source
  ("Skip validation for now to allow testing"), so the model does not call it either.
\<close>

datatype save_outcome = Resolved | Rejected | Pending

definition handleNext :: "save_outcome \<Rightarrow> wstate \<Rightarrow> wstate \<times> effect list" where
  "handleNext outcome s =
     (case outcome of
        Pending \<Rightarrow> (s\<lparr> isProcessing := True \<rparr>, [])
      | Rejected \<Rightarrow> (s\<lparr> isProcessing := False \<rparr>, [ToastError ''Failed to save progress''])
      | Resolved \<Rightarrow>
          (let s1 = s\<lparr> completedStages := completedStages s @ [currentStage s] \<rparr>
           in if js_lt (currentStage s) stages_length
              then (s1\<lparr> currentStage := js_plus (currentStage s) 1, isProcessing := False \<rparr>,
                    [ToastSuccess (''Stage '' @ numberToString (currentStage s) @ '' completed!'')])
              else (s1\<lparr> isProcessing := False \<rparr>, [])))"

definition handleBack :: "wstate \<Rightarrow> wstate" where
  "handleBack s =
     (if js_gt (currentStage s) (Num 1)
      then s\<lparr> currentStage := js_minus (currentStage s) 1 \<rparr>
      else s)"

text \<open>The condition of \<^verbatim>\<open>handleStageClick\<close>.\<close>

definition stageClick_allowed :: "wstate \<Rightarrow> jsnum \<Rightarrow> bool" where
  "stageClick_allowed s stageNumber =
     (js_includes (completedStages s) stageNumber
      \<or> js_strict_eq stageNumber (Num (int (length (completedStages s)) + 1)))"

definition handleStageClick :: "wstate \<Rightarrow> jsnum \<Rightarrow> wstate \<times> effect list" where
  "handleStageClick s stageNumber =
     (if stageClick_allowed s stageNumber
      then (s\<lparr> currentStage := stageNumber \<rparr>, [])
      else (s, [ToastError ''Complete previous stages first'']))"

text \<open>
  \<^verbatim>\<open>handleStageDataChange\<close> stores the payload under the property key of the current
  stage, the decimal text of the number.
\<close>

definition handleStageDataChange :: "wstate \<Rightarrow> jsval \<Rightarrow> wstate \<times> effect list" where
  "handleStageDataChange s data =
     (s\<lparr> stageData := (stageData s)(numberToString (currentStage s) \<mapsto> data) \<rparr>,
      if js_strict_eq (currentStage s) (Num 1) \<and> truthy (optional_prop data ''document_id'')
      then [Navigate (''/workflow/'' @ js_ToString (optional_prop data ''document_id'') @ ''/2'')]
      else [])"

subsection \<open>Sequences of user actions\<close>

datatype event =
    Next save_outcome
  | Back
  | StageClick jsnum
  | StageDataChange jsval
  | Validate
  | LoadWorkflowData "string option"

fun step :: "wstate \<Rightarrow> event \<Rightarrow> wstate" where
  "step s (Next outcome) = fst (handleNext outcome s)"
| "step s Back = handleBack s"
| "step s (StageClick n) = fst (handleStageClick s n)"
| "step s (StageDataChange d) = fst (handleStageDataChange s d)"
| "step s Validate = snd (validateStage s)"
| "step s (LoadWorkflowData documentId) = mountEffect documentId s"

definition run :: "wstate \<Rightarrow> event list \<Rightarrow> wstate" where
  "run s es = foldl step s es"

subsection \<open>The navigation rule in the words of the specification\<close>

text \<open>
  The specification states the rule with the furthest completed stage: a stage may be
  entered when it is completed or when it is \<open>max (completedStages \<union> {0}) + 1\<close>. This
  is the rule as the specification words it, to be compared with
  \<^const>\<open>stageClick_allowed\<close>.
\<close>

definition furthest_completed :: "jsnum list \<Rightarrow> int" where
  "furthest_completed xs = foldr (\<lambda>x m. case x of Num a \<Rightarrow> max a m | NaN \<Rightarrow> m) xs 0"

definition canEnter_spec :: "wstate \<Rightarrow> jsnum \<Rightarrow> bool" where
  "canEnter_spec s targetStage =
     (targetStage \<in> set (completedStages s)
      \<or> targetStage = Num (furthest_completed (completedStages s) + 1))"

subsection \<open>Predicates on states and on sequences of actions\<close>

text \<open>Every completed stage lies between 1 and the current stage.\<close>

definition completed_within_current :: "wstate \<Rightarrow> bool" where
  "completed_within_current s =
     (\<forall>x \<in> set (completedStages s). js_le (Num 1) x \<and> js_le x (currentStage s))"

text \<open>The current stage is one of the stages of the table.\<close>

definition in_stage_range :: "jsnum \<Rightarrow> bool" where
  "in_stage_range n = (js_le (Num 1) n \<and> js_le n stages_length)"

text \<open>Actions that do not navigate: completing, validating, recording a payload.\<close>

fun forward_event :: "event \<Rightarrow> bool" where
  "forward_event (Next outcome) = True"
| "forward_event (StageDataChange d) = True"
| "forward_event Validate = True"
| "forward_event _ = False"

text \<open>
  The pipeline component calls \<^verbatim>\<open>onStageClick(stage.id)\<close> for the entries of its stage
  table only, whose ids are those of \<^const>\<open>stages\<close>.
\<close>

fun pipeline_event :: "event \<Rightarrow> bool" where
  "pipeline_event (StageClick n) = (n \<in> set (map (\<lambda>st. Num (fst st)) stages))"
| "pipeline_event _ = True"

subsection \<open>Some reachable states\<close>

text \<open>A workflow opened on \<^verbatim>\<open>workflow/new\<close>, before any action.\<close>

definition fresh :: wstate where
  "fresh = WorkflowPage_init None"

text \<open>The workflow of the document \<^verbatim>\<open>demo\<close> after its data is loaded.\<close>

definition demo_loaded :: wstate where
  "demo_loaded = mountEffect (Some ''demo'') (WorkflowPage_init None)"

text \<open>Four stages completed in a row.\<close>

definition four_completed :: wstate where
  "four_completed = run fresh [Next Resolved, Next Resolved, Next Resolved, Next Resolved]"

text \<open>Two stages completed, then one step back to stage 2.\<close>

definition revisited :: wstate where
  "revisited = run fresh [Next Resolved, Next Resolved, Back]"

text \<open>The same, with stage 2 completed a second time.\<close>

definition recompleted :: wstate where
  "recompleted = run fresh [Next Resolved, Next Resolved, Back, Next Resolved]"

text \<open>Two stages completed, then two steps back to stage 1.\<close>

definition back_at_start :: wstate where
  "back_at_start = run fresh [Next Resolved, Next Resolved, Back, Back]"

text \<open>Six stages completed in a row: the last stage is the current one.\<close>

definition six_completed :: wstate where
  "six_completed = run fresh [Next Resolved, Next Resolved, Next Resolved,
                              Next Resolved, Next Resolved, Next Resolved]"

section \<open>Properties\<close>

subsection \<open>Integers that are doubles\<close>

lemma to_double_exact [simp]: "\<bar>x\<bar> < 9007199254740992 \<Longrightarrow> to_double x = Num x"
  by (simp add: to_double_def round_magnitude_def Let_def abs_if)

subsection \<open>Evaluation of the example states\<close>

lemma parseInt_1: "parseInt ''1'' = Num 1"
  by code_simp

lemma fresh_eq:
  "fresh = \<lparr> currentStage = Num 1, completedStages = [], stageData = Map.empty,
             loading = False, isProcessing = False, validationErrors = [] \<rparr>"
  by (simp add: fresh_def WorkflowPage_init_def parseInt_1)

lemma stages_length_eq: "stages_length = Num 7"
  by (simp add: stages_length_def stages_def)

lemma demo_loaded_eq:
  "demo_loaded = \<lparr> currentStage = Num 3, completedStages = [Num 1, Num 2], stageData = Map.empty,
             loading = False, isProcessing = False, validationErrors = [] \<rparr>"
  by (simp add: demo_loaded_def mountEffect_def loadWorkflowData_def fresh_eq [unfolded fresh_def])

lemma four_completed_eq:
  "four_completed = \<lparr> currentStage = Num 5, completedStages = [Num 1, Num 2, Num 3, Num 4],
             stageData = Map.empty, loading = False, isProcessing = False, validationErrors = [] \<rparr>"
  by (simp add: four_completed_def run_def fresh_eq handleNext_def stages_length_eq)

lemma revisited_eq:
  "revisited = \<lparr> currentStage = Num 2, completedStages = [Num 1, Num 2],
             stageData = Map.empty, loading = False, isProcessing = False, validationErrors = [] \<rparr>"
  by (simp add: revisited_def run_def fresh_eq handleNext_def handleBack_def stages_length_eq)

lemma recompleted_eq:
  "recompleted = \<lparr> currentStage = Num 3, completedStages = [Num 1, Num 2, Num 2],
             stageData = Map.empty, loading = False, isProcessing = False, validationErrors = [] \<rparr>"
  by (simp add: recompleted_def run_def fresh_eq handleNext_def handleBack_def stages_length_eq)

lemma back_at_start_eq:
  "back_at_start = \<lparr> currentStage = Num 1, completedStages = [Num 1, Num 2],
             stageData = Map.empty, loading = False, isProcessing = False, validationErrors = [] \<rparr>"
  by (simp add: back_at_start_def run_def fresh_eq handleNext_def handleBack_def stages_length_eq)

lemma six_completed_eq:
  "six_completed = \<lparr> currentStage = Num 7,
             completedStages = [Num 1, Num 2, Num 3, Num 4, Num 5, Num 6],
             stageData = Map.empty, loading = False, isProcessing = False, validationErrors = [] \<rparr>"
  by (simp add: six_completed_def run_def fresh_eq handleNext_def stages_length_eq)

subsection \<open>Comparisons of stage numbers\<close>

lemma js_le_Num1: "js_le (Num 1) n = ((\<exists>k. n = Num k \<and> 1 \<le> k) \<or> n = PosInfinity)"
  by (cases n) auto

lemma in_stage_range_Num: "in_stage_range n = (\<exists>k. n = Num k \<and> 1 \<le> k \<and> k \<le> 7)"
  by (cases n) (auto simp: in_stage_range_def stages_length_eq)

subsection \<open>Navigation by a click on the pipeline\<close>

text \<open>
  C1 (as amended). A click on a stage that is in \<^verbatim>\<open>completedStages\<close> makes it the
  current stage and leaves \<^verbatim>\<open>completedStages\<close> and the stored payloads as they
  are: no later stage is removed. From the completed stages 1, 2, 3, 4, a click on
  stage 2 gives the current stage 2 with 1, 2, 3, 4 still completed.
\<close>

theorem handleStageClick_completed:
  assumes "js_includes (completedStages s) n"
  shows "currentStage (fst (handleStageClick s n)) = n
       \<and> completedStages (fst (handleStageClick s n)) = completedStages s
       \<and> stageData (fst (handleStageClick s n)) = stageData s"
  using assms by (simp add: handleStageClick_def stageClick_allowed_def)

theorem handleStageClick_completed_witness:
  "js_includes (completedStages four_completed) (Num 2)
   \<and> currentStage (fst (handleStageClick four_completed (Num 2))) = Num 2
   \<and> completedStages (fst (handleStageClick four_completed (Num 2))) = [Num 1, Num 2, Num 3, Num 4]
   \<and> stageData (fst (handleStageClick four_completed (Num 2))) = Map.empty"
proof -
  have member: "js_includes (completedStages four_completed) (Num 2)"
    by (simp add: four_completed_eq js_includes_def)
  from handleStageClick_completed [OF member] member show ?thesis
    by (simp add: four_completed_eq)
qed

text \<open>
  The claim as first stated, that the click removes the later stages so that only
  stage 1 stays completed, fails in that state.
\<close>

theorem cascade_counterexample:
  "js_includes (completedStages four_completed) (Num 2)
   \<and> set (completedStages (fst (handleStageClick four_completed (Num 2)))) \<noteq> {Num 1}"
  by (simp add: four_completed_eq js_includes_def handleStageClick_def stageClick_allowed_def)

text \<open>
  C2. The gate of \<^verbatim>\<open>handleStageClick\<close> compares with the length of
  \<^verbatim>\<open>completedStages\<close>, and \<^verbatim>\<open>handleNext\<close> appends to it without a membership test.
  After Next, Next, Previous, Next on a new workflow the array is 1, 2, 2: the click on
  stage 4 is admitted, although 4 is neither completed nor the stage after the furthest
  completed one, and the click on stage 3, which is that stage, is refused.
\<close>

theorem gate_after_recompletion:
  "completedStages recompleted = [Num 1, Num 2, Num 2]
   \<and> stageClick_allowed recompleted (Num 4)
   \<and> currentStage (fst (handleStageClick recompleted (Num 4))) = Num 4
   \<and> \<not> canEnter_spec recompleted (Num 4)
   \<and> \<not> stageClick_allowed recompleted (Num 3)
   \<and> canEnter_spec recompleted (Num 3)"
  by (simp add: recompleted_eq handleStageClick_def stageClick_allowed_def js_includes_def
      canEnter_spec_def furthest_completed_def)

text \<open>
  C10. A refused click changes nothing: when the stage is not in \<^verbatim>\<open>completedStages\<close>
  and is not \<^verbatim>\<open>completedStages.length + 1\<close>, the stage the gate lets through next,
  the state after the click is the state before it, and the only effect is the toast.
\<close>

theorem handleStageClick_refused:
  assumes "\<not> js_includes (completedStages s) n"
    and "\<not> js_strict_eq n (Num (int (length (completedStages s)) + 1))"
  shows "handleStageClick s n = (s, [ToastError ''Complete previous stages first''])"
  using assms by (simp add: handleStageClick_def stageClick_allowed_def)

theorem handleStageClick_refused_witness:
  "\<not> js_includes (completedStages demo_loaded) (Num 5)
   \<and> \<not> js_strict_eq (Num 5) (Num (int (length (completedStages demo_loaded)) + 1))
   \<and> handleStageClick demo_loaded (Num 5) = (demo_loaded, [ToastError ''Complete previous stages first''])"
proof -
  have a: "\<not> js_includes (completedStages demo_loaded) (Num 5)"
    by (simp add: demo_loaded_eq js_includes_def)
  have b: "\<not> js_strict_eq (Num 5) (Num (int (length (completedStages demo_loaded)) + 1))"
    by (simp add: demo_loaded_eq)
  from handleStageClick_refused [OF a b] a b show ?thesis
    by simp
qed

subsection \<open>Going back\<close>

text \<open>
  C8. \<^verbatim>\<open>handleBack\<close> lowers the current stage by one when it is above 1 and does
  nothing when it is 1; \<^verbatim>\<open>completedStages\<close> and the payloads are never touched. From
  the completed stages 1, 2 and the current stage 3 it gives the current stage 2. The
  decrement is stated for stages up to \<open>2^53\<close>, where the difference is a double; the
  stages of the workflow are 1 to 7.
\<close>

theorem handleBack_frame:
  "completedStages (handleBack s) = completedStages s
   \<and> stageData (handleBack s) = stageData s
   \<and> (currentStage s = Num k \<and> 1 < k \<and> k \<le> 9007199254740992
        \<longrightarrow> currentStage (handleBack s) = Num (k - 1))
   \<and> (currentStage s = Num 1 \<longrightarrow> handleBack s = s)"
  by (simp add: handleBack_def)

theorem handleBack_frame_witness:
  "currentStage demo_loaded = Num 3
   \<and> currentStage (handleBack demo_loaded) = Num 2
   \<and> completedStages (handleBack demo_loaded) = [Num 1, Num 2]
   \<and> stageData (handleBack demo_loaded) = stageData demo_loaded
   \<and> currentStage fresh = Num 1
   \<and> handleBack fresh = fresh"
  using handleBack_frame [of demo_loaded 3] handleBack_frame [of fresh 0]
  by (simp add: demo_loaded_eq fresh_eq)

subsection \<open>Recording a payload\<close>

text \<open>
  C9. \<^verbatim>\<open>handleStageDataChange\<close> is idempotent on the state: called twice with the
  same payload it leaves the state that one call leaves. The payload is stored under the
  key of the current stage; the current stage and \<^verbatim>\<open>completedStages\<close> are not touched.
\<close>

theorem handleStageDataChange_idempotent:
  "fst (handleStageDataChange (fst (handleStageDataChange s d)) d) = fst (handleStageDataChange s d)
   \<and> stageData (fst (handleStageDataChange s d)) (numberToString (currentStage s)) = Some d
   \<and> currentStage (fst (handleStageDataChange s d)) = currentStage s
   \<and> completedStages (fst (handleStageDataChange s d)) = completedStages s"
  by (simp add: handleStageDataChange_def)

subsection \<open>Completing a stage\<close>

text \<open>
  C6. In \<^verbatim>\<open>handleNext\<close> the save is awaited first. When the awaited promise rejects,
  or while it has not settled, the current stage, \<^verbatim>\<open>completedStages\<close> and the payloads
  are what they were before the call; a rejection shows the toast of the \<^verbatim>\<open>catch\<close>
  branch. Only when the promise has resolved is the current stage appended to
  \<^verbatim>\<open>completedStages\<close>.
\<close>

theorem handleNext_save_first:
  "currentStage (fst (handleNext Rejected s)) = currentStage s
   \<and> completedStages (fst (handleNext Rejected s)) = completedStages s
   \<and> stageData (fst (handleNext Rejected s)) = stageData s
   \<and> snd (handleNext Rejected s) = [ToastError ''Failed to save progress'']
   \<and> currentStage (fst (handleNext Pending s)) = currentStage s
   \<and> completedStages (fst (handleNext Pending s)) = completedStages s
   \<and> stageData (fst (handleNext Pending s)) = stageData s
   \<and> completedStages (fst (handleNext Resolved s)) = completedStages s @ [currentStage s]
   \<and> stageData (fst (handleNext Resolved s)) = stageData s"
  by (simp add: handleNext_def Let_def)

text \<open>
  C3 (as amended). \<^verbatim>\<open>handleNext\<close> does not consult the validation: whenever the
  save resolves, the current stage is appended to \<^verbatim>\<open>completedStages\<close>.
  \<^verbatim>\<open>validateStage\<close>, where it is called, passes at stage 1 exactly when
  \<^verbatim>\<open>stageData.fileUploaded\<close> is truthy, at stage 2 exactly when
  \<^verbatim>\<open>stageData.cleaningComplete\<close> is, at stage 6 exactly when
  \<^verbatim>\<open>stageData.userConfirmed\<close> is, and at every other stage; it passes exactly
  when it stores no message in \<^verbatim>\<open>validationErrors\<close>, and it leaves the current stage,
  \<^verbatim>\<open>completedStages\<close> and the payloads as they are.
\<close>

theorem handleNext_skips_validation:
  "completedStages (fst (handleNext Resolved s)) = completedStages s @ [currentStage s]
   \<and> fst (validateStage s) =
       (if js_strict_eq (currentStage s) (Num 1) then truthy (stageData_prop s ''fileUploaded'')
        else if js_strict_eq (currentStage s) (Num 2) then truthy (stageData_prop s ''cleaningComplete'')
        else if js_strict_eq (currentStage s) (Num 6) then truthy (stageData_prop s ''userConfirmed'')
        else True)
   \<and> fst (validateStage s) = (validationErrors (snd (validateStage s)) = [])
   \<and> currentStage (snd (validateStage s)) = currentStage s
   \<and> completedStages (snd (validateStage s)) = completedStages s
   \<and> stageData (snd (validateStage s)) = stageData s"
  by (simp add: handleNext_def Let_def validateStage_def stageErrors_def)

text \<open>
  The claim as first stated fails on a new workflow: nothing is uploaded, the
  validation of stage 1 does not pass, and \<^verbatim>\<open>handleNext\<close> completes stage 1 and moves
  to stage 2.
\<close>

theorem validation_counterexample:
  "\<not> fst (validateStage fresh)
   \<and> completedStages (fst (handleNext Resolved fresh)) = [Num 1]
   \<and> currentStage (fst (handleNext Resolved fresh)) = Num 2"
  by (simp add: fresh_eq validateStage_def stageErrors_def stageData_prop_def handleNext_def
      stages_length_eq)

text \<open>
  C7. Completing a stage that is already in \<^verbatim>\<open>completedStages\<close> appends it again. In
  the state reached by Next, Next, Previous the current stage 2 is completed; a further
  Next makes the array 1, 2, 2, of length 3 with two distinct stages, and the gate then
  admits stage 4, beyond the stage after the furthest completed one.
\<close>

theorem recompletion_appends_duplicate:
  "currentStage revisited = Num 2
   \<and> completedStages revisited = [Num 1, Num 2]
   \<and> completedStages (fst (handleNext Resolved revisited)) = [Num 1, Num 2, Num 2]
   \<and> \<not> distinct (completedStages (fst (handleNext Resolved revisited)))
   \<and> furthest_completed (completedStages (fst (handleNext Resolved revisited))) + 1 = 3
   \<and> fst (handleStageClick (fst (handleNext Resolved revisited)) (Num 4))
       = (fst (handleNext Resolved revisited)) \<lparr> currentStage := Num 4 \<rparr>"
  by (simp add: revisited_eq handleNext_def stages_length_eq furthest_completed_def
      handleStageClick_def stageClick_allowed_def js_includes_def)

subsection \<open>Invariants of the current stage\<close>

lemma handleNext_forward:
  assumes "js_le (Num 1) (currentStage s)" and "completed_within_current s"
  shows "js_le (Num 1) (currentStage (fst (handleNext outcome s)))
       \<and> completed_within_current (fst (handleNext outcome s))"
proof (cases outcome)
  case Resolved
  from assms(2) have old: "\<forall>x \<in> set (completedStages s). js_le (Num 1) x \<and> js_le x (currentStage s)"
    by (simp add: completed_within_current_def)
  from assms(1) consider (finite) k where "currentStage s = Num k" "1 \<le> k"
    | (infinite) "currentStage s = PosInfinity"
    by (auto simp: js_le_Num1)
  then show ?thesis
  proof cases
    case finite
    have up: "js_le x (Num (k + 1))" if "js_le x (Num k)" for x
      using that by (cases x) auto
    show ?thesis
      using old finite up
      by (auto simp: Resolved handleNext_def Let_def completed_within_current_def stages_length_eq)
  next
    case infinite
    with old show ?thesis
      by (auto simp: Resolved handleNext_def Let_def completed_within_current_def stages_length_eq)
  qed
next
  case Rejected
  with assms show ?thesis by (simp add: handleNext_def completed_within_current_def)
next
  case Pending
  with assms show ?thesis by (simp add: handleNext_def completed_within_current_def)
qed

lemma step_forward:
  assumes "js_le (Num 1) (currentStage s)" and "completed_within_current s" and "forward_event e"
  shows "js_le (Num 1) (currentStage (step s e)) \<and> completed_within_current (step s e)"
proof (cases e)
  case (Next outcome)
  with handleNext_forward [OF assms(1,2)] show ?thesis by simp
next
  case (StageDataChange d)
  with assms show ?thesis by (simp add: handleStageDataChange_def completed_within_current_def)
next
  case Validate
  with assms show ?thesis by (simp add: validateStage_def completed_within_current_def)
qed (use assms(3) in simp_all)

lemma run_forward:
  "js_le (Num 1) (currentStage s) \<Longrightarrow> completed_within_current s \<Longrightarrow> list_all forward_event es
   \<Longrightarrow> js_le (Num 1) (currentStage (run s es)) \<and> completed_within_current (run s es)"
proof (induction es arbitrary: s)
  case Nil
  then show ?case by (simp add: run_def)
next
  case (Cons e es)
  from Cons.prems
  have "js_le (Num 1) (currentStage (step s e)) \<and> completed_within_current (step s e)"
    by (intro step_forward) simp_all
  moreover from Cons.prems have "list_all forward_event es" by simp
  ultimately
  have "js_le (Num 1) (currentStage (run (step s e) es))
      \<and> completed_within_current (run (step s e) es)"
    using Cons.IH by blast
  then show ?case by (simp add: run_def)
qed

lemma step_in_range:
  assumes "in_stage_range (currentStage s)" and "pipeline_event e"
  shows "in_stage_range (currentStage (step s e))"
proof -
  from assms(1) obtain k where k: "currentStage s = Num k" "1 \<le> k" "k \<le> 7"
    by (auto simp: in_stage_range_Num)
  show ?thesis
  proof (cases e)
    case (Next outcome)
    with k show ?thesis
      by (cases outcome) (auto simp: handleNext_def Let_def in_stage_range_Num stages_length_eq)
  next
    case Back
    with k show ?thesis
      by (auto simp: handleBack_def in_stage_range_Num)
  next
    case (StageClick n)
    with assms(2) have "in_stage_range n"
      by (auto simp: stages_def in_stage_range_Num)
    with StageClick assms(1) show ?thesis
      by (simp add: handleStageClick_def)
  next
    case (StageDataChange d)
    with assms(1) show ?thesis by (simp add: handleStageDataChange_def)
  next
    case Validate
    with assms(1) show ?thesis by (simp add: validateStage_def)
  next
    case (LoadWorkflowData documentId)
    with assms(1) show ?thesis
      by (auto simp: mountEffect_def loadWorkflowData_def in_stage_range_Num
          split: option.splits)
  qed
qed

lemma run_in_range:
  "in_stage_range (currentStage s) \<Longrightarrow> list_all pipeline_event es
   \<Longrightarrow> in_stage_range (currentStage (run s es))"
proof (induction es arbitrary: s)
  case Nil
  then show ?case by (simp add: run_def)
next
  case (Cons e es)
  from Cons.prems have "in_stage_range (currentStage (step s e))"
    by (intro step_in_range) simp_all
  with Cons.prems Cons.IH [of "step s e"] show ?case by (simp add: run_def)
qed

text \<open>
  C4 (as amended). Every completed stage lies between 1 and the current stage in the
  initial state, and from any state where that holds and the current stage is at least
  1, it still holds after every sequence of completions, validations and recorded
  payloads. Going back and clicking on the pipeline are left out: they move the current
  stage and do not touch \<^verbatim>\<open>completedStages\<close>.
\<close>

theorem completed_within_current_forward:
  "completed_within_current (WorkflowPage_init stage)
   \<and> (js_le (Num 1) (currentStage s) \<and> completed_within_current s \<and> list_all forward_event es
        \<longrightarrow> completed_within_current (run s es))"
  using run_forward [of s es]
  by (simp add: completed_within_current_def WorkflowPage_init_def)

theorem completed_within_current_forward_witness:
  "js_le (Num 1) (currentStage fresh)
   \<and> completed_within_current fresh
   \<and> list_all forward_event [Next Resolved, StageDataChange (JBool True), Next Rejected, Next Resolved]
   \<and> completed_within_current
        (run fresh [Next Resolved, StageDataChange (JBool True), Next Rejected, Next Resolved])
   \<and> completedStages
        (run fresh [Next Resolved, StageDataChange (JBool True), Next Rejected, Next Resolved])
       = [Num 1, Num 2]"
proof -
  have a: "js_le (Num 1) (currentStage fresh)"
    by (simp add: fresh_eq)
  have b: "completed_within_current fresh"
    by (simp add: fresh_eq completed_within_current_def)
  have c: "list_all forward_event
             [Next Resolved, StageDataChange (JBool True), Next Rejected, Next Resolved]"
    by simp
  have d: "completedStages
        (run fresh [Next Resolved, StageDataChange (JBool True), Next Rejected, Next Resolved])
       = [Num 1, Num 2]"
    by (simp add: run_def fresh_eq handleNext_def handleStageDataChange_def stages_length_eq)
  from completed_within_current_forward
         [of None fresh "[Next Resolved, StageDataChange (JBool True), Next Rejected, Next Resolved]"]
       a b c d
  show ?thesis by blast
qed

text \<open>
  The claim as first stated, for all operations, fails after Next, Next, Previous,
  Previous: stage 2 is completed and the current stage is 1.
\<close>

theorem completed_beyond_current_counterexample:
  "currentStage back_at_start = Num 1
   \<and> completedStages back_at_start = [Num 1, Num 2]
   \<and> \<not> completed_within_current back_at_start"
  by (simp add: back_at_start_eq completed_within_current_def)

text \<open>
  C5 (as amended). Without a route parameter the page starts at stage 1. From any state
  whose current stage is one of the seven stages, such as the initial state for a route
  parameter that parses to a number from 1 to 7, the current stage is still one of them
  after every sequence of actions whose clicks come from the pipeline. Completing at
  stage 7 leaves the current stage at 7 and appends 7 to \<^verbatim>\<open>completedStages\<close>.
\<close>

theorem currentStage_in_range:
  "currentStage (WorkflowPage_init None) = Num 1
   \<and> (in_stage_range (currentStage s) \<and> list_all pipeline_event es
        \<longrightarrow> in_stage_range (currentStage (run s es)))
   \<and> (currentStage s = Num 7
        \<longrightarrow> currentStage (fst (handleNext Resolved s)) = Num 7
          \<and> completedStages (fst (handleNext Resolved s)) = completedStages s @ [Num 7])"
  using run_in_range [of s es] fresh_eq
  by (simp add: fresh_def handleNext_def Let_def stages_length_eq)

theorem currentStage_in_range_witness:
  "in_stage_range (currentStage (WorkflowPage_init (Some ''3'')))
   \<and> list_all pipeline_event
        [Next Resolved, StageClick (Num 1), Back, LoadWorkflowData (Some ''demo''), StageClick (Num 7)]
   \<and> in_stage_range (currentStage (run (WorkflowPage_init (Some ''3''))
        [Next Resolved, StageClick (Num 1), Back, LoadWorkflowData (Some ''demo''), StageClick (Num 7)]))
   \<and> currentStage six_completed = Num 7
   \<and> currentStage (fst (handleNext Resolved six_completed)) = Num 7
   \<and> completedStages (fst (handleNext Resolved six_completed))
       = [Num 1, Num 2, Num 3, Num 4, Num 5, Num 6, Num 7]"
proof -
  have p: "parseInt ''3'' = Num 3"
    by code_simp
  have a: "in_stage_range (currentStage (WorkflowPage_init (Some ''3'')))"
    by (simp add: WorkflowPage_init_def p in_stage_range_Num)
  have b: "list_all pipeline_event
        [Next Resolved, StageClick (Num 1), Back, LoadWorkflowData (Some ''demo''), StageClick (Num 7)]"
    by (simp add: stages_def)
  have c: "currentStage six_completed = Num 7"
    by (simp add: six_completed_eq)
  from currentStage_in_range [of "WorkflowPage_init (Some ''3'')"
         "[Next Resolved, StageClick (Num 1), Back, LoadWorkflowData (Some ''demo''), StageClick (Num 7)]"]
       currentStage_in_range [of six_completed "[]"] a b c
  show ?thesis by (simp add: six_completed_eq)
qed

text \<open>
  The claim as first stated, for every initialisation, fails for the route
  \<^verbatim>\<open>workflow/doc/9\<close>: the parameter is parsed and taken as it is.
\<close>

theorem route_parameter_counterexample:
  "currentStage (WorkflowPage_init (Some ''9'')) = Num 9
   \<and> \<not> in_stage_range (currentStage (WorkflowPage_init (Some ''9'')))"
proof -
  have "parseInt ''9'' = Num 9"
    by code_simp
  then show ?thesis
    by (simp add: WorkflowPage_init_def in_stage_range_Num)
qed

end
